theory Spec2Isabelle
  imports Main
begin

section \<open>Data model (types.ts)\<close>

text \<open>
  \<^verbatim>\<open>export type RiskLevel = 'safe' | 'suspicious' | 'high-risk';\<close>
\<close>

datatype RiskLevel = Safe | Suspicious | HighRisk

text \<open>
  \<^verbatim>\<open>interface ScanResult\<close>. The field \<^verbatim>\<open>id\<close> is named \<open>id_sr\<close> because \<open>id\<close> is the
  identity function of HOL. Scores are integers (the interface says 0-100); timestamps
  are the millisecond counts of \<^verbatim>\<open>Date.now()\<close>.
\<close>

record ScanResult =
  id_sr :: string
  url :: string
  timestamp :: nat
  riskScore :: int
  riskLevel :: RiskLevel
  indicators :: "string list"
  recommendation :: string
  analysis :: string

text \<open>
  \<^verbatim>\<open>Partial<ScanResult>\<close>: every field may be absent (\<open>None\<close> is JavaScript's
  \<^verbatim>\<open>undefined\<close>). This is the shape of the JSON that the assessment endpoint sends
  and of what \<^verbatim>\<open>analyzeUrl\<close> hands to its caller; the numbers in it are finite.
\<close>

record Partial_ScanResult =
  id_opt :: "string option"
  url_opt :: "string option"
  timestamp_opt :: "nat option"
  riskScore_opt :: "int option"
  riskLevel_opt :: "RiskLevel option"
  indicators_opt :: "string list option"
  recommendation_opt :: "string option"
  analysis_opt :: "string option"

text \<open>The object literal \<^verbatim>\<open>{}\<close> read as a \<^verbatim>\<open>Partial<ScanResult>\<close>.\<close>

definition no_fields :: Partial_ScanResult where
  "no_fields =
     \<lparr>id_opt = None, url_opt = None, timestamp_opt = None, riskScore_opt = None,
      riskLevel_opt = None, indicators_opt = None, recommendation_opt = None,
      analysis_opt = None\<rparr>"

datatype Screen = Home | Scanning | Result | History

record AppState =
  screen :: Screen
  currentResult :: "ScanResult option"
  history :: "ScanResult list"
  blockedUrls :: "string list"

text \<open>Exceptions of the JavaScript run time, as values.\<close>

datatype error = Error string | TypeError | SyntaxError | NetworkError

section \<open>JavaScript's \<^verbatim>\<open>||\<close> at the types it is used at\<close>

text \<open>
  \<^verbatim>\<open>x || d\<close> is \<open>d\<close> when \<open>x\<close> is falsy. A number is falsy when it is 0 (no NaN comes
  out of JSON), a string when it is empty, \<^verbatim>\<open>undefined\<close> always; arrays and the three
  risk-level strings are always truthy.
\<close>

definition or_number :: "int option \<Rightarrow> int \<Rightarrow> int" where
  "or_number x d = (case x of None \<Rightarrow> d | Some n \<Rightarrow> if n = 0 then d else n)"

definition or_string :: "string option \<Rightarrow> string \<Rightarrow> string" where
  "or_string x d = (case x of None \<Rightarrow> d | Some s \<Rightarrow> if s = [] then d else s)"

definition or_truthy :: "'a option \<Rightarrow> 'a \<Rightarrow> 'a" where
  "or_truthy x d = (case x of None \<Rightarrow> d | Some v \<Rightarrow> v)"

section \<open>Risk classifier\<close>

text \<open>
  utils.ts:
  \<^verbatim>\<open>
  export function getRiskLevel(score: number) {
    if (score < 30) return 'safe';
    if (score < 70) return 'suspicious';
    return 'high-risk';
  }
  \<close>
\<close>

definition getRiskLevel :: "int \<Rightarrow> RiskLevel" where
  "getRiskLevel score =
     (if score < 30 then Safe
      else if score < 70 then Suspicious
      else HighRisk)"

text \<open>server.ts has its own copy of the function, translated separately.\<close>

definition getRiskLevel_server :: "int \<Rightarrow> RiskLevel" where
  "getRiskLevel_server score =
     (if score < 30 then Safe
      else if score < 70 then Suspicious
      else HighRisk)"

section \<open>Assessment Service (server.ts)\<close>

text \<open>
  \<^verbatim>\<open>getAI()\<close> creates the client of the AI backend on first use and keeps it in the
  module variable \<^verbatim>\<open>aiInstance\<close>; it throws when the environment has no (or an empty)
  \<^verbatim>\<open>GEMINI_API_KEY\<close>. The instance is identified with the key it was made from. The
  function returns its result together with the new value of \<^verbatim>\<open>aiInstance\<close>.
\<close>

type_synonym GoogleGenAI = string

definition getAI ::
  "GoogleGenAI option \<Rightarrow> string option \<Rightarrow> (error + GoogleGenAI) \<times> GoogleGenAI option" where
  "getAI aiInstance apiKey =
     (case aiInstance of
        Some ai \<Rightarrow> (Inr ai, aiInstance)
      | None \<Rightarrow>
          (case apiKey of
             None \<Rightarrow> (Inl (Error ''GEMINI_API_KEY is not defined''), None)
           | Some k \<Rightarrow>
               if k = [] then (Inl (Error ''GEMINI_API_KEY is not defined''), None)
               else (Inr k, Some k)))"

text \<open>
  The JSON text of the backend's answer, by its content: \<^verbatim>\<open>null\<close>, an object (read
  through the fields of a scan result, typed as the response schema types them, with the
  score as the integer literal written in the text), or something that is neither (a
  number, a boolean, a string, an array), none of whose own properties has the name of a
  scan-result field.
\<close>

datatype parsed = JsonNull | JsonObject Partial_ScanResult | JsonOther

text \<open>
  \<^verbatim>\<open>response.text\<close> of the backend's answer, by what the handler does with it:
  \<^verbatim>\<open>undefined\<close>, the empty string, a string that \<^verbatim>\<open>JSON.parse\<close> rejects, or a string
  that is JSON with the given content.
\<close>

datatype response_text = TextUndefined | TextEmpty | TextMalformed | TextJson parsed

subsection \<open>Numbers as \<^verbatim>\<open>JSON.parse\<close> makes them\<close>

text \<open>
  A JavaScript number is a double. \<^verbatim>\<open>JSON.parse\<close> reads an integer literal as the
  nearest double (ties to the even significand of 53 bits) and a literal beyond the range
  of doubles as \<^verbatim>\<open>Infinity\<close> or \<^verbatim>\<open>-Infinity\<close>; JSON text has no NaN. \<open>Num n\<close> is
  the finite double whose value is the integer \<open>n\<close>.
\<close>

datatype number = Num int | Infinity | NegInfinity

function binary_digits :: "int \<Rightarrow> nat" where
  "binary_digits m = (if m \<le> 0 then 0 else Suc (binary_digits (m div 2)))"
  by pat_completeness auto
termination
  by (relation "measure nat") auto

declare binary_digits.simps [simp del]

text \<open>
  Rounding of a magnitude of more than 53 binary digits to 53 significant ones: \<open>q\<close> is
  the significand, \<open>r\<close> what is cut off, and a tie goes to the even significand.
\<close>

definition round_to_53 :: "int \<Rightarrow> int" where
  "round_to_53 m =
     (let e = binary_digits m - 53;
          q = m div 2 ^ e;
          r = m mod 2 ^ e;
          half = 2 ^ (e - 1)
      in (if half < r \<or> (r = half \<and> odd q) then q + 1 else q) * 2 ^ e)"

text \<open>
  The largest finite double is \<open>(2^53 - 1) * 2^971\<close>; a magnitude of at least
  \<open>2^1024 - 2^970\<close> rounds beyond it and becomes infinite.
\<close>

definition JSON_parse_number :: "int \<Rightarrow> number" where
  "JSON_parse_number n =
     (if \<bar>n\<bar> \<le> 2 ^ 53 then Num n
      else if 2 ^ 1024 - 2 ^ 970 \<le> \<bar>n\<bar> then (if n < 0 then NegInfinity else Infinity)
      else Num (sgn n * round_to_53 \<bar>n\<bar>))"

text \<open>
  The object \<^verbatim>\<open>data\<close> in the route's memory: the fields of the JSON text, with the score
  as a JavaScript number.
\<close>

record js_object =
  id_js :: "string option"
  url_js :: "string option"
  timestamp_js :: "nat option"
  riskScore_js :: "number option"
  riskLevel_js :: "RiskLevel option"
  indicators_js :: "string list option"
  recommendation_js :: "string option"
  analysis_js :: "string option"

definition JSON_parse_object :: "Partial_ScanResult \<Rightarrow> js_object" where
  "JSON_parse_object obj =
     \<lparr>id_js = id_opt obj,
      url_js = url_opt obj,
      timestamp_js = timestamp_opt obj,
      riskScore_js = map_option JSON_parse_number (riskScore_opt obj),
      riskLevel_js = riskLevel_opt obj,
      indicators_js = indicators_opt obj,
      recommendation_js = recommendation_opt obj,
      analysis_js = analysis_opt obj\<rparr>"

text \<open>What \<^verbatim>\<open>JSON.parse\<close> returns, of type \<^verbatim>\<open>any\<close>.\<close>

datatype js_value = JsNull | JsObject js_object | JsOther

definition JSON_parse :: "parsed \<Rightarrow> js_value" where
  "JSON_parse v =
     (case v of
        JsonNull \<Rightarrow> JsNull
      | JsonObject obj \<Rightarrow> JsObject (JSON_parse_object obj)
      | JsonOther \<Rightarrow> JsOther)"

text \<open>
  \<^verbatim>\<open>JSON.parse(response.text || "{}")\<close>: the two falsy texts are replaced by the
  literal \<^verbatim>\<open>"{}"\<close>, which parses to the empty object.
\<close>

definition JSON_parse_text :: "response_text \<Rightarrow> error + js_value" where
  "JSON_parse_text text =
     (case text of
        TextUndefined \<Rightarrow> Inr (JSON_parse (JsonObject no_fields))
      | TextEmpty \<Rightarrow> Inr (JSON_parse (JsonObject no_fields))
      | TextMalformed \<Rightarrow> Inl SyntaxError
      | TextJson v \<Rightarrow> Inr (JSON_parse v))"

text \<open>\<^verbatim>\<open>data.riskScore\<close>: reading a property of \<^verbatim>\<open>null\<close> throws a TypeError.\<close>

definition get_riskScore :: "js_value \<Rightarrow> error + number option" where
  "get_riskScore data =
     (case data of
        JsNull \<Rightarrow> Inl TypeError
      | JsObject obj \<Rightarrow> Inr (riskScore_js obj)
      | JsOther \<Rightarrow> Inr None)"

text \<open>\<^verbatim>\<open>{...data}\<close>: spreading \<^verbatim>\<open>null\<close> or a primitive copies no named field.\<close>

definition spread :: "js_value \<Rightarrow> js_object" where
  "spread data =
     (case data of
        JsNull \<Rightarrow> JSON_parse_object no_fields
      | JsObject obj \<Rightarrow> obj
      | JsOther \<Rightarrow> JSON_parse_object no_fields)"

text \<open>
  \<^verbatim>\<open>data.riskScore || 0\<close> on a JavaScript number: only \<^verbatim>\<open>undefined\<close> and 0 are falsy.
\<close>

definition or_js_number :: "number option \<Rightarrow> number \<Rightarrow> number" where
  "or_js_number x d =
     (case x of
        None \<Rightarrow> d
      | Some (Num n) \<Rightarrow> if n = 0 then d else Num n
      | Some Infinity \<Rightarrow> Infinity
      | Some NegInfinity \<Rightarrow> NegInfinity)"

text \<open>
  \<^verbatim>\<open>score < k\<close> for an integer \<open>k\<close>: \<^verbatim>\<open>Infinity\<close> is below nothing and
  \<^verbatim>\<open>-Infinity\<close> below everything.
\<close>

definition less_js :: "number \<Rightarrow> int \<Rightarrow> bool" where
  "less_js x k = (case x of Num n \<Rightarrow> n < k | Infinity \<Rightarrow> False | NegInfinity \<Rightarrow> True)"

text \<open>
  The server's \<^verbatim>\<open>getRiskLevel\<close> on the number the route passes to it; on a finite
  number it is \<open>getRiskLevel_server\<close>.
\<close>

definition getRiskLevel_server_js :: "number \<Rightarrow> RiskLevel" where
  "getRiskLevel_server_js score =
     (if less_js score 30 then Safe
      else if less_js score 70 then Suspicious
      else HighRisk)"

text \<open>
  What \<^verbatim>\<open>res.json\<close> writes and \<^verbatim>\<open>response.json()\<close> reads back. A finite number is
  written in full and read unchanged. \<^verbatim>\<open>JSON.stringify\<close> writes an infinite number as
  \<^verbatim>\<open>null\<close>; the client reads the score only through \<^verbatim>\<open>analysis.riskScore || 0\<close>,
  which takes \<^verbatim>\<open>null\<close> as it takes a missing field, so \<open>None\<close> stands for both.
\<close>

definition JSON_stringify_number :: "number option \<Rightarrow> int option" where
  "JSON_stringify_number x =
     (case x of
        None \<Rightarrow> None
      | Some (Num n) \<Rightarrow> Some n
      | Some Infinity \<Rightarrow> None
      | Some NegInfinity \<Rightarrow> None)"

definition JSON_stringify :: "js_object \<Rightarrow> Partial_ScanResult" where
  "JSON_stringify obj =
     \<lparr>id_opt = id_js obj,
      url_opt = url_js obj,
      timestamp_opt = timestamp_js obj,
      riskScore_opt = JSON_stringify_number (riskScore_js obj),
      riskLevel_opt = riskLevel_js obj,
      indicators_opt = indicators_js obj,
      recommendation_opt = recommendation_js obj,
      analysis_opt = analysis_js obj\<rparr>"

text \<open>The body of an answer, as it is on the wire.\<close>

datatype http_body = ErrorJson string | ResultJson Partial_ScanResult

record http_response =
  status :: nat
  body :: http_body

text \<open>The payload of the \<^verbatim>\<open>catch\<close> branch of the route (all its numbers are finite).\<close>

definition server_fallback :: Partial_ScanResult where
  "server_fallback =
     no_fields\<lparr>
       riskScore_opt := Some 50,
       riskLevel_opt := Some Suspicious,
       indicators_opt := Some [''Analysis failed due to server error''],
       recommendation_opt := Some ''Proceed with extreme caution. Manual verification required.'',
       analysis_opt := Some ''We were unable to complete the AI-powered deep scan at this time.''\<rparr>"

text \<open>
  The last two statements of the \<^verbatim>\<open>try\<close> block, up to the object handed to
  \<^verbatim>\<open>res.json\<close>:
  \<^verbatim>\<open>
  const data = JSON.parse(response.text || "{}");
  res.json({ ...data, riskLevel: getRiskLevel(data.riskScore || 0) });
  \<close>
\<close>

definition analyze_body :: "response_text \<Rightarrow> error + js_object" where
  "analyze_body text =
     (case JSON_parse_text text of
        Inl e \<Rightarrow> Inl e
      | Inr data \<Rightarrow>
          (case get_riskScore data of
             Inl e \<Rightarrow> Inl e
           | Inr score \<Rightarrow>
               Inr ((spread data)\<lparr>riskLevel_js :=
                      Some (getRiskLevel_server_js (or_js_number score (Num 0)))\<rparr>)))"

text \<open>
  The whole \<^verbatim>\<open>try\<close> block. \<open>generateContent ai u\<close> is the call of the AI backend
  with the fixed prompt around the URL \<open>u\<close>: it throws or returns the text of the answer.
\<close>

definition analyze_try ::
  "(GoogleGenAI \<Rightarrow> string \<Rightarrow> error + response_text) \<Rightarrow> error + GoogleGenAI \<Rightarrow> string
     \<Rightarrow> error + js_object" where
  "analyze_try generateContent ai u =
     (case ai of
        Inl e \<Rightarrow> Inl e
      | Inr inst \<Rightarrow>
          (case generateContent inst u of
             Inl e \<Rightarrow> Inl e
           | Inr text \<Rightarrow> analyze_body text))"

text \<open>
  \<^verbatim>\<open>app.post("/api/analyze", ...)\<close>. \<open>req_url\<close> is \<^verbatim>\<open>req.body.url\<close>; the result is
  the HTTP response and the new value of \<^verbatim>\<open>aiInstance\<close>.
\<close>

definition api_analyze ::
  "(GoogleGenAI \<Rightarrow> string \<Rightarrow> error + response_text) \<Rightarrow> string option \<Rightarrow> GoogleGenAI option
     \<Rightarrow> string option \<Rightarrow> http_response \<times> GoogleGenAI option" where
  "api_analyze generateContent apiKey aiInstance req_url =
     (case req_url of
        None \<Rightarrow> (\<lparr>status = 400, body = ErrorJson ''URL is required''\<rparr>, aiInstance)
      | Some u \<Rightarrow>
          if u = [] then (\<lparr>status = 400, body = ErrorJson ''URL is required''\<rparr>, aiInstance)
          else
            (let (ai, aiInstance') = getAI aiInstance apiKey in
             case analyze_try generateContent ai u of
               Inr result \<Rightarrow>
                 (\<lparr>status = 200, body = ResultJson (JSON_stringify result)\<rparr>, aiInstance')
             | Inl e \<Rightarrow> (\<lparr>status = 500, body = ResultJson server_fallback\<rparr>, aiInstance')))"

section \<open>Assessment Client (services/gemini.ts)\<close>

text \<open>
  What \<^verbatim>\<open>fetch\<close> resolves to: the status code and the outcome of \<^verbatim>\<open>response.json()\<close>,
  which rejects when the body is not JSON.
\<close>

record Response =
  status_code :: nat
  json :: "error + Partial_ScanResult"

definition ok :: "Response \<Rightarrow> bool" where
  "ok response = (200 \<le> status_code response \<and> status_code response \<le> 299)"

text \<open>The object literal returned by the \<^verbatim>\<open>catch\<close> branch of \<^verbatim>\<open>analyzeUrl\<close>.\<close>

definition client_fallback :: Partial_ScanResult where
  "client_fallback =
     no_fields\<lparr>
       riskScore_opt := Some 50,
       riskLevel_opt := Some Suspicious,
       indicators_opt := Some [''Analysis failed due to network error''],
       recommendation_opt := Some ''Proceed with extreme caution. Manual verification required.'',
       analysis_opt := Some ''We were unable to complete the AI-powered deep scan at this time.''\<rparr>"

text \<open>
  The \<^verbatim>\<open>try\<close> block of \<^verbatim>\<open>analyzeUrl\<close>. \<open>fetch u\<close> is the POST of \<^verbatim>\<open>{url: u}\<close> to
  \<^verbatim>\<open>/api/analyze\<close>: it rejects (\<open>Inl\<close>) or resolves to a response.
\<close>

definition analyzeUrl_try ::
  "(string \<Rightarrow> error + Response) \<Rightarrow> string \<Rightarrow> error + Partial_ScanResult" where
  "analyzeUrl_try fetch u =
     (case fetch u of
        Inl e \<Rightarrow> Inl e
      | Inr response \<Rightarrow>
          if \<not> ok response then Inl (Error ''Failed to analyze URL'')
          else json response)"

text \<open>\<^verbatim>\<open>analyzeUrl\<close>: the \<^verbatim>\<open>try\<close> block with its \<^verbatim>\<open>catch\<close>.\<close>

definition analyzeUrl ::
  "(string \<Rightarrow> error + Response) \<Rightarrow> string \<Rightarrow> error + Partial_ScanResult" where
  "analyzeUrl fetch u =
     (case analyzeUrl_try fetch u of
        Inl e \<Rightarrow> Inr client_fallback
      | Inr result \<Rightarrow> Inr result)"

text \<open>
  The client talking to this repository's own server: \<^verbatim>\<open>express.json()\<close> puts the posted
  URL into \<^verbatim>\<open>req.body.url\<close>, and the JSON that \<^verbatim>\<open>res.json\<close> wrote (the body of the
  answer) is what \<^verbatim>\<open>response.json()\<close> reads; the body of a 400 answer has no
  scan-result field.
\<close>

definition to_Response :: "http_response \<Rightarrow> Response" where
  "to_Response r =
     \<lparr>status_code = status r,
      json = Inr (case body r of ResultJson p \<Rightarrow> p | ErrorJson msg \<Rightarrow> no_fields)\<rparr>"

definition fetch_from_server ::
  "(GoogleGenAI \<Rightarrow> string \<Rightarrow> error + response_text) \<Rightarrow> string option \<Rightarrow> GoogleGenAI option
     \<Rightarrow> string \<Rightarrow> error + Response" where
  "fetch_from_server generateContent apiKey aiInstance u =
     Inr (to_Response (fst (api_analyze generateContent apiKey aiInstance (Some u))))"

section \<open>Scan session (App.tsx)\<close>

text \<open>
  The component's state: \<^verbatim>\<open>state\<close> and the two flags \<^verbatim>\<open>isAnalyzing\<close> and
  \<^verbatim>\<open>showAlert\<close>.
\<close>

record ui =
  app :: AppState
  isAnalyzing :: bool
  showAlert :: bool

text \<open>
  What one run of \<^verbatim>\<open>handleScan\<close> reads from outside: the first and the second value
  of \<^verbatim>\<open>Date.now()\<close>, and the string \<^verbatim>\<open>Math.random().toString(36).substring(7)\<close>.
\<close>

record env =
  now_first :: nat
  now_second :: nat
  random_id :: string

text \<open>The decimal digits of a number, as \<^verbatim>\<open>'blocked-' + Date.now()\<close> appends them.\<close>

definition digit :: "nat \<Rightarrow> char" where
  "digit d = ''0123456789'' ! d"

fun string_of_nat :: "nat \<Rightarrow> string" where
  "string_of_nat n =
     (if n < 10 then [digit n] else string_of_nat (n div 10) @ [digit (n mod 10)])"

declare string_of_nat.simps [simp del]

definition blockedResult :: "string \<Rightarrow> nat \<Rightarrow> nat \<Rightarrow> ScanResult" where
  "blockedResult u t_id t_stamp =
     \<lparr>id_sr = ''blocked-'' @ string_of_nat t_id,
      url = u,
      timestamp = t_stamp,
      riskScore = 100,
      riskLevel = HighRisk,
      indicators = [''This URL was previously blocked due to high security risks.''],
      recommendation = ''Do not attempt to access this URL.'',
      analysis = ''Automatically blocked by SecureScan AI protection system.''\<rparr>"

text \<open>
  \<^verbatim>\<open>
  const newResult: ScanResult = {
    id: Math.random().toString(36).substring(7), url, timestamp: Date.now(),
    riskScore: analysis.riskScore || 0,
    riskLevel: analysis.riskLevel || 'suspicious',
    indicators: analysis.indicators || [],
    recommendation: analysis.recommendation || '',
    analysis: analysis.analysis || '',
  };
  \<close>
\<close>

definition newResult :: "string \<Rightarrow> string \<Rightarrow> nat \<Rightarrow> Partial_ScanResult \<Rightarrow> ScanResult" where
  "newResult rnd u t a =
     \<lparr>id_sr = rnd,
      url = u,
      timestamp = t,
      riskScore = or_number (riskScore_opt a) 0,
      riskLevel = or_truthy (riskLevel_opt a) Suspicious,
      indicators = or_truthy (indicators_opt a) [],
      recommendation = or_string (recommendation_opt a) [],
      analysis = or_string (analysis_opt a) []\<rparr>"

text \<open>
  \<^verbatim>\<open>[...new Set(xs)]\<close>: a Set keeps the first occurrence of each element, in insertion
  order.
\<close>

definition Set_add :: "'a list \<Rightarrow> 'a \<Rightarrow> 'a list" where
  "Set_add acc x = (if x \<in> set acc then acc else acc @ [x])"

definition new_Set :: "'a list \<Rightarrow> 'a list" where
  "new_Set xs = foldl Set_add [] xs"

text \<open>The three state updaters that \<^verbatim>\<open>handleScan\<close> passes to \<^verbatim>\<open>setState\<close>.\<close>

definition show_blocked :: "ScanResult \<Rightarrow> AppState \<Rightarrow> AppState" where
  "show_blocked r prev = prev\<lparr>screen := Result, currentResult := Some r\<rparr>"

definition start_scanning :: "AppState \<Rightarrow> AppState" where
  "start_scanning prev = prev\<lparr>screen := Scanning\<rparr>"

definition store_result :: "ScanResult \<Rightarrow> string \<Rightarrow> AppState \<Rightarrow> AppState" where
  "store_result r u prev =
     prev\<lparr>screen := Result,
          currentResult := Some r,
          history := take 50 (r # history prev),
          blockedUrls :=
            (if riskLevel r = HighRisk then new_Set (blockedUrls prev @ [u])
             else blockedUrls prev)\<rparr>"

text \<open>
  One run of \<^verbatim>\<open>handleScan\<close>: the state it leaves, the URLs it called \<^verbatim>\<open>analyzeUrl\<close>
  with, and the exception it ended with, if any (only a rejecting \<^verbatim>\<open>analyzeUrl\<close> could
  cause one, after the first two updates). The run is taken as one step of the single
  actor: the \<^verbatim>\<open>state\<close> that the block-list test reads and the \<^verbatim>\<open>prev\<close> that the
  updaters receive are the same state \<open>s\<close>, with no other event in between.
\<close>

record scan_run =
  final :: ui
  analyzeUrl_calls :: "string list"
  rejected :: "error option"

definition handleScan ::
  "env \<Rightarrow> (string \<Rightarrow> error + Response) \<Rightarrow> ui \<Rightarrow> string \<Rightarrow> scan_run" where
  "handleScan e fetch s u =
     (if u \<in> set (blockedUrls (app s)) then
        \<lparr>final = s\<lparr>app := show_blocked (blockedResult u (now_first e) (now_second e)) (app s),
                   showAlert := True\<rparr>,
         analyzeUrl_calls = [],
         rejected = None\<rparr>
      else
        (let s1 = s\<lparr>app := start_scanning (app s), isAnalyzing := True\<rparr> in
         case analyzeUrl fetch u of
           Inl err \<Rightarrow> \<lparr>final = s1, analyzeUrl_calls = [u], rejected = Some err\<rparr>
         | Inr a \<Rightarrow>
             (let r = newResult (random_id e) u (now_first e) a;
                  isHighRisk = (riskLevel r = HighRisk);
                  s2 = s1\<lparr>app := store_result r u (app s1), isAnalyzing := False\<rparr>
              in \<lparr>final = (if isHighRisk then s2\<lparr>showAlert := True\<rparr> else s2),
                  analyzeUrl_calls = [u],
                  rejected = None\<rparr>)))"

subsection \<open>Start-up\<close>

text \<open>
  What \<^verbatim>\<open>JSON.parse\<close> can make of a stored string: an array (its elements taken at
  the type the state declares), or a value that is no array: \<^verbatim>\<open>null\<close>, a number, a
  boolean, a string, or an object (one without a property \<^verbatim>\<open>length\<close>).
\<close>

datatype 'a stored_value =
  StoredArray "'a list" | StoredNull | StoredNumber | StoredBoolean | StoredString string
  | StoredObject

text \<open>
  What \<^verbatim>\<open>localStorage.getItem\<close> finds under a key, by what the initialiser does with it:
  nothing (\<^verbatim>\<open>null\<close>), the empty string, a string that \<^verbatim>\<open>JSON.parse\<close> rejects, or a
  string that parses to the given value.
\<close>

datatype 'a saved = Missing | EmptyString | Unparsable | Saved "'a stored_value"

text \<open>\<^verbatim>\<open>saved ? JSON.parse(saved) : []\<close>: whatever parses is taken, array or not.\<close>

definition parse_saved :: "'a saved \<Rightarrow> error + 'a stored_value" where
  "parse_saved item =
     (case item of
        Missing \<Rightarrow> Inr (StoredArray [])
      | EmptyString \<Rightarrow> Inr (StoredArray [])
      | Unparsable \<Rightarrow> Inl SyntaxError
      | Saved v \<Rightarrow> Inr v)"

text \<open>
  The value of \<^verbatim>\<open>state\<close> as the initialiser returns it. \<^verbatim>\<open>JSON.parse\<close> returns
  \<^verbatim>\<open>any\<close>, so nothing makes the two lists be arrays: the value is an \<open>AppState\<close> only
  when both are.
\<close>

record InitialState =
  screen_init :: Screen
  currentResult_init :: "ScanResult option"
  history_init :: "ScanResult stored_value"
  blockedUrls_init :: "string stored_value"

definition as_AppState :: "InitialState \<Rightarrow> AppState option" where
  "as_AppState s0 =
     (case (history_init s0, blockedUrls_init s0) of
        (StoredArray h, StoredArray b) \<Rightarrow>
          Some \<lparr>screen = screen_init s0, currentResult = currentResult_init s0,
                history = h, blockedUrls = b\<rparr>
      | _ \<Rightarrow> None)"

text \<open>
  The \<^verbatim>\<open>try\<close> block of the initialiser of \<^verbatim>\<open>useState\<close>. Each \<^verbatim>\<open>getItem\<close> may itself
  throw (storage switched off), which is \<open>Inl\<close>.
\<close>

definition load_try ::
  "error + ScanResult saved \<Rightarrow> error + string saved \<Rightarrow> error + InitialState" where
  "load_try getHistory getBlocked =
     (case getHistory of
        Inl e \<Rightarrow> Inl e
      | Inr savedHistory \<Rightarrow>
          (case getBlocked of
             Inl e \<Rightarrow> Inl e
           | Inr savedBlocked \<Rightarrow>
               (case parse_saved savedHistory of
                  Inl e \<Rightarrow> Inl e
                | Inr h \<Rightarrow>
                    (case parse_saved savedBlocked of
                       Inl e \<Rightarrow> Inl e
                     | Inr b \<Rightarrow>
                         Inr \<lparr>screen_init = Home, currentResult_init = None,
                              history_init = h, blockedUrls_init = b\<rparr>))))"

text \<open>The initialiser with its \<^verbatim>\<open>catch\<close>: \<open>Inl\<close> would be an exception that escapes.\<close>

definition initial_state ::
  "error + ScanResult saved \<Rightarrow> error + string saved \<Rightarrow> error + InitialState" where
  "initial_state getHistory getBlocked =
     (case load_try getHistory getBlocked of
        Inl e \<Rightarrow>
          Inr \<lparr>screen_init = Home, currentResult_init = None,
               history_init = StoredArray [], blockedUrls_init = StoredArray []\<rparr>
      | Inr s0 \<Rightarrow> Inr s0)"

text \<open>
  What the home screen reads of the history when it renders:
  \<^verbatim>\<open>
  {state.history.length > 0 && ( ...
      {state.history.slice(0, 3).map(scan => <HistoryItem ... />)} ... )}
  \<close>
  The result is the scans it lists, or the exception that ends the render.
  \<^verbatim>\<open>null.length\<close> throws; a number, a boolean and an object without \<^verbatim>\<open>length\<close> give
  \<^verbatim>\<open>undefined > 0\<close>, which is false; a non-empty string has a \<^verbatim>\<open>slice\<close> but its
  result has no \<^verbatim>\<open>map\<close>.
\<close>

definition recent_scans :: "'a stored_value \<Rightarrow> error + 'a list" where
  "recent_scans h =
     (case h of
        StoredArray xs \<Rightarrow> Inr (if 0 < length xs then take 3 xs else [])
      | StoredNull \<Rightarrow> Inl TypeError
      | StoredNumber \<Rightarrow> Inr []
      | StoredBoolean \<Rightarrow> Inr []
      | StoredString str \<Rightarrow> if 0 < length str then Inl TypeError else Inr []
      | StoredObject \<Rightarrow> Inr [])"

text \<open>
  The first render: \<^verbatim>\<open>{state.screen === 'home' && renderHome()}\<close>, and only the home
  screen reads the history.
\<close>

definition first_render :: "InitialState \<Rightarrow> error + ScanResult list" where
  "first_render s0 =
     (if screen_init s0 = Home then recent_scans (history_init s0) else Inr [])"

section \<open>Facts shared by the properties below\<close>

text \<open>What a run of \<^verbatim>\<open>handleScan\<close> on a URL that is not blocked leaves behind.\<close>

lemma handleScan_fresh:
  "u \<notin> set (blockedUrls (app s)) \<Longrightarrow> analyzeUrl fetch u = Inr a \<Longrightarrow>
   app (final (handleScan e fetch s u))
     = store_result (newResult (random_id e) u (now_first e) a) u (start_scanning (app s))"
  by (simp add: handleScan_def Let_def)

lemma analyzeUrl_total: "\<exists>r. analyzeUrl fetch u = Inr r"
  by (simp add: analyzeUrl_def split: sum.splits)

text \<open>The history after one and after many recorded results.\<close>

lemma store_result_history: "history (store_result r u prev) = take 50 (r # history prev)"
  by (simp add: store_result_def)

lemma take_50_Cons_take: "take 50 (r # take 50 xs) = take 50 (r # xs)"
proof -
  have "take (Suc 49) (r # take 50 xs) = r # take 49 (take 50 xs)" by (rule take_Suc_Cons)
  also have "take 49 (take 50 xs) = take 49 xs" by (simp add: take_take)
  also have "r # take 49 xs = take (Suc 49) (r # xs)" by (rule take_Suc_Cons [symmetric])
  finally show ?thesis by simp
qed

lemma record_many:
  "length (history prev) \<le> 50 \<Longrightarrow>
   history (foldl (\<lambda>s (r, u). store_result r u s) prev rs)
     = take 50 (rev (map fst rs) @ history prev)"
proof (induction rs rule: rev_induct)
  case Nil
  then show ?case by simp
next
  case (snoc p rs)
  obtain r u where p: "p = (r, u)" by (cases p)
  let ?f = "\<lambda>s (r, u). store_result r u s"
  have ih: "history (foldl ?f prev rs) = take 50 (rev (map fst rs) @ history prev)"
    using snoc by simp
  have "history (foldl ?f prev (rs @ [p])) = history (store_result r u (foldl ?f prev rs))"
    by (simp add: p)
  also have "\<dots> = take 50 (r # history (foldl ?f prev rs))"
    by (rule store_result_history)
  also have "\<dots> = take 50 (r # take 50 (rev (map fst rs) @ history prev))"
    by (simp only: ih)
  also have "\<dots> = take 50 (r # (rev (map fst rs) @ history prev))"
    by (rule take_50_Cons_take)
  also have "r # (rev (map fst rs) @ history prev) = rev (map fst (rs @ [p])) @ history prev"
    by (simp add: p)
  finally show ?case .
qed

lemma handleScan_history_bound:
  "length (history (app s)) \<le> 50 \<Longrightarrow>
   length (history (app (final (handleScan e fetch s u)))) \<le> 50"
proof (cases "u \<in> set (blockedUrls (app s))")
  case True
  assume "length (history (app s)) \<le> 50"
  then show ?thesis using True by (simp add: handleScan_def show_blocked_def)
next
  case False
  obtain a where a: "analyzeUrl fetch u = Inr a"
    using analyzeUrl_total by blast
  show ?thesis
    by (simp add: handleScan_fresh [OF False a] store_result_history)
qed

text \<open>
  What the route can answer, and what the client then hands on: on the success path the
  level of the object handed to \<^verbatim>\<open>res.json\<close> is the classifier's value for its score
  (0 when absent), and this survives the writing as JSON unless the score is
  \<^verbatim>\<open>Infinity\<close>.
\<close>

lemma analyze_body_level:
  "analyze_body t = Inr obj \<Longrightarrow>
   riskLevel_js obj = Some (getRiskLevel_server_js (or_js_number (riskScore_js obj) (Num 0)))"
  by (cases t)
     (auto simp: analyze_body_def JSON_parse_text_def JSON_parse_def get_riskScore_def
           spread_def JSON_parse_object_def no_fields_def
           split: parsed.splits)

lemma analyze_try_level:
  "analyze_try generateContent ai u = Inr obj \<Longrightarrow>
   riskLevel_js obj = Some (getRiskLevel_server_js (or_js_number (riskScore_js obj) (Num 0)))"
  by (auto simp: analyze_try_def split: sum.splits dest: analyze_body_level)

lemma getRiskLevel_server_js_Num: "getRiskLevel_server_js (Num n) = getRiskLevel_server n"
  by (simp add: getRiskLevel_server_js_def less_js_def getRiskLevel_server_def)

lemma JSON_stringify_level:
  assumes "riskLevel_js obj
             = Some (getRiskLevel_server_js (or_js_number (riskScore_js obj) (Num 0)))"
    and "riskScore_js obj \<noteq> Some Infinity"
  shows "riskLevel_opt (JSON_stringify obj)
           = Some (getRiskLevel_server (or_number (riskScore_opt (JSON_stringify obj)) 0))"
proof (cases "riskScore_js obj")
  case None
  then show ?thesis using assms(1)
    by (simp add: JSON_stringify_def JSON_stringify_number_def or_js_number_def or_number_def
        getRiskLevel_server_js_Num)
next
  case (Some x)
  show ?thesis
  proof (cases x)
    case (Num n)
    then show ?thesis using assms(1) Some
      by (simp add: JSON_stringify_def JSON_stringify_number_def or_js_number_def or_number_def
          getRiskLevel_server_js_Num)
  next
    case Infinity
    then show ?thesis using assms(2) Some by simp
  next
    case NegInfinity
    then show ?thesis using assms(1) Some
      by (simp add: JSON_stringify_def JSON_stringify_number_def or_js_number_def or_number_def
          getRiskLevel_server_js_def less_js_def getRiskLevel_server_def)
  qed
qed

lemma api_analyze_cases:
  "fst (api_analyze generateContent apiKey aiInstance req)
     = \<lparr>status = 400, body = ErrorJson ''URL is required''\<rparr> \<or>
   fst (api_analyze generateContent apiKey aiInstance req)
     = \<lparr>status = 500, body = ResultJson server_fallback\<rparr> \<or>
   (\<exists>u obj. req = Some u \<and>
        analyze_try generateContent (fst (getAI aiInstance apiKey)) u = Inr obj \<and>
        fst (api_analyze generateContent apiKey aiInstance req)
          = \<lparr>status = 200, body = ResultJson (JSON_stringify obj)\<rparr>)"
proof (cases req)
  case None
  then show ?thesis by (simp add: api_analyze_def)
next
  case (Some u)
  show ?thesis
  proof (cases "u = []")
    case True
    then show ?thesis by (simp add: api_analyze_def Some)
  next
    case False
    obtain ai inst' where g: "getAI aiInstance apiKey = (ai, inst')"
      by (cases "getAI aiInstance apiKey")
    show ?thesis
    proof (cases "analyze_try generateContent ai u")
      case (Inl e)
      then show ?thesis using False by (simp add: api_analyze_def Some g)
    next
      case (Inr obj)
      then show ?thesis using False by (simp add: api_analyze_def Some g)
    qed
  qed
qed

lemma analyzeUrl_from_server_cases:
  "analyzeUrl (fetch_from_server generateContent apiKey aiInstance) u = Inr client_fallback \<or>
   (\<exists>obj. analyze_try generateContent (fst (getAI aiInstance apiKey)) u = Inr obj \<and>
        analyzeUrl (fetch_from_server generateContent apiKey aiInstance) u
          = Inr (JSON_stringify obj))"
  using api_analyze_cases [of generateContent apiKey aiInstance "Some u"]
  by (auto simp: analyzeUrl_def analyzeUrl_try_def fetch_from_server_def to_Response_def ok_def)

lemma newResult_agrees:
  "riskLevel_opt a = Some (getRiskLevel (or_number (riskScore_opt a) 0)) \<Longrightarrow>
   getRiskLevel (riskScore (newResult rnd u t a)) = riskLevel (newResult rnd u t a)"
  by (simp add: newResult_def or_truthy_def)

lemma blocked_agrees:
  "getRiskLevel (riskScore (blockedResult u t1 t2)) = riskLevel (blockedResult u t1 t2)"
  by (simp add: blockedResult_def getRiskLevel_def)

lemma fallback_levels:
  "riskScore_opt client_fallback = Some 50"
  "riskLevel_opt client_fallback = Some (getRiskLevel 50)"
  "riskScore_opt server_fallback = Some 50"
  "riskLevel_opt server_fallback = Some (getRiskLevel_server 50)"
  by (simp_all add: client_fallback_def server_fallback_def getRiskLevel_def getRiskLevel_server_def)

lemma getRiskLevel_server_eq: "getRiskLevel_server = getRiskLevel"
  by (rule ext) (simp add: getRiskLevel_def getRiskLevel_server_def)

section \<open>Properties of the classifier\<close>

text \<open>
  C2. For every integer score \<open>s\<close> the classifier (either copy) returns safe exactly when
  \<open>s < 30\<close>, suspicious exactly when \<open>30 \<le> s < 70\<close> and high-risk exactly when
  \<open>s \<ge> 70\<close>; the boundary scores 29, 30, 69 and 70 classify as safe, suspicious,
  suspicious and high-risk.
\<close>

theorem getRiskLevel_bands:
  "(getRiskLevel s = Safe) = (s < 30) \<and>
   (getRiskLevel s = Suspicious) = (30 \<le> s \<and> s < 70) \<and>
   (getRiskLevel s = HighRisk) = (70 \<le> s) \<and>
   (getRiskLevel_server s = Safe) = (s < 30) \<and>
   (getRiskLevel_server s = Suspicious) = (30 \<le> s \<and> s < 70) \<and>
   (getRiskLevel_server s = HighRisk) = (70 \<le> s) \<and>
   getRiskLevel 29 = Safe \<and> getRiskLevel 30 = Suspicious \<and>
   getRiskLevel 69 = Suspicious \<and> getRiskLevel 70 = HighRisk \<and>
   getRiskLevel_server 29 = Safe \<and> getRiskLevel_server 30 = Suspicious \<and>
   getRiskLevel_server 69 = Suspicious \<and> getRiskLevel_server 70 = HighRisk"
  by (simp add: getRiskLevel_def getRiskLevel_server_def)

text \<open>
  C9. The copy of the classifier in utils.ts and the copy in server.ts are the same
  function: they agree on every integer score.
\<close>

theorem getRiskLevel_copies_agree: "getRiskLevel s = getRiskLevel_server s"
  by (simp add: getRiskLevel_def getRiskLevel_server_def)

section \<open>Properties of the scan pipeline\<close>

text \<open>
  C1. When the URL is already in \<^verbatim>\<open>blockedUrls\<close>, \<^verbatim>\<open>handleScan\<close> shows the synthetic
  result with risk score 100, level high-risk and the fixed indicator "This URL was
  previously blocked due to high security risks."; it does not call \<^verbatim>\<open>analyzeUrl\<close>,
  and it leaves \<^verbatim>\<open>history\<close> and \<^verbatim>\<open>blockedUrls\<close> as they were.
\<close>

theorem handleScan_blocked:
  assumes "u \<in> set (blockedUrls (app s))"
  shows "currentResult (app (final (handleScan e fetch s u)))
           = Some (blockedResult u (now_first e) (now_second e)) \<and>
         riskScore (blockedResult u (now_first e) (now_second e)) = 100 \<and>
         riskLevel (blockedResult u (now_first e) (now_second e)) = HighRisk \<and>
         indicators (blockedResult u (now_first e) (now_second e))
           = [''This URL was previously blocked due to high security risks.''] \<and>
         analyzeUrl_calls (handleScan e fetch s u) = [] \<and>
         rejected (handleScan e fetch s u) = None \<and>
         history (app (final (handleScan e fetch s u))) = history (app s) \<and>
         blockedUrls (app (final (handleScan e fetch s u))) = blockedUrls (app s)"
proof -
  have run: "handleScan e fetch s u =
      \<lparr>final = s\<lparr>app := show_blocked (blockedResult u (now_first e) (now_second e)) (app s),
                 showAlert := True\<rparr>,
       analyzeUrl_calls = [], rejected = None\<rparr>"
    using assms by (simp add: handleScan_def)
  show ?thesis
    by (simp add: run show_blocked_def blockedResult_def)
qed

theorem handleScan_blocked_witness:
  "''http://evil.example/'' \<in> set (blockedUrls (app
       \<lparr>app = \<lparr>screen = Home, currentResult = None, history = [],
                blockedUrls = [''http://evil.example/'']\<rparr>,
        isAnalyzing = False, showAlert = False\<rparr>)) \<and>
   analyzeUrl_calls (handleScan \<lparr>now_first = 5, now_second = 6, random_id = ''k3x''\<rparr>
       (\<lambda>u. Inl NetworkError)
       \<lparr>app = \<lparr>screen = Home, currentResult = None, history = [],
                blockedUrls = [''http://evil.example/'']\<rparr>,
        isAnalyzing = False, showAlert = False\<rparr>
       ''http://evil.example/'') = [] \<and>
   history (app (final (handleScan \<lparr>now_first = 5, now_second = 6, random_id = ''k3x''\<rparr>
       (\<lambda>u. Inl NetworkError)
       \<lparr>app = \<lparr>screen = Home, currentResult = None, history = [],
                blockedUrls = [''http://evil.example/'']\<rparr>,
        isAnalyzing = False, showAlert = False\<rparr>
       ''http://evil.example/''))) = [] \<and>
   blockedUrls (app (final (handleScan \<lparr>now_first = 5, now_second = 6, random_id = ''k3x''\<rparr>
       (\<lambda>u. Inl NetworkError)
       \<lparr>app = \<lparr>screen = Home, currentResult = None, history = [],
                blockedUrls = [''http://evil.example/'']\<rparr>,
        isAnalyzing = False, showAlert = False\<rparr>
       ''http://evil.example/''))) = [''http://evil.example/''] \<and>
   currentResult (app (final (handleScan \<lparr>now_first = 5, now_second = 6, random_id = ''k3x''\<rparr>
       (\<lambda>u. Inl NetworkError)
       \<lparr>app = \<lparr>screen = Home, currentResult = None, history = [],
                blockedUrls = [''http://evil.example/'']\<rparr>,
        isAnalyzing = False, showAlert = False\<rparr>
       ''http://evil.example/''))) =
     Some \<lparr>id_sr = ''blocked-5'', url = ''http://evil.example/'', timestamp = 6,
           riskScore = 100, riskLevel = HighRisk,
           indicators = [''This URL was previously blocked due to high security risks.''],
           recommendation = ''Do not attempt to access this URL.'',
           analysis = ''Automatically blocked by SecureScan AI protection system.''\<rparr>"
proof -
  let ?s = "\<lparr>app = \<lparr>screen = Home, currentResult = None, history = [],
                blockedUrls = [''http://evil.example/'']\<rparr>,
        isAnalyzing = False, showAlert = False\<rparr>"
  have h: "''http://evil.example/'' \<in> set (blockedUrls (app ?s))" by simp
  have d: "string_of_nat 5 = ''5''" by (simp add: string_of_nat.simps digit_def)
  show ?thesis
    using handleScan_blocked [OF h, of "\<lparr>now_first = 5, now_second = 6, random_id = ''k3x''\<rparr>"
        "\<lambda>u. Inl NetworkError"]
    by (simp add: blockedResult_def d)
qed

text \<open>
  C7. For every assessment response, the result that \<^verbatim>\<open>handleScan\<close> builds and shows
  takes a fixed default for each missing field: 0 for \<^verbatim>\<open>riskScore\<close>, suspicious for
  \<^verbatim>\<open>riskLevel\<close>, the empty list for \<^verbatim>\<open>indicators\<close>, the empty string for
  \<^verbatim>\<open>recommendation\<close> and \<^verbatim>\<open>analysis\<close>; a field that is present is copied.
\<close>

theorem handleScan_defaults:
  assumes "u \<notin> set (blockedUrls (app s))" and "analyzeUrl fetch u = Inr a"
  shows "currentResult (app (final (handleScan e fetch s u)))
           = Some (newResult (random_id e) u (now_first e) a) \<and>
         (riskScore_opt a = None \<longrightarrow> riskScore (newResult (random_id e) u (now_first e) a) = 0) \<and>
         (riskLevel_opt a = None
            \<longrightarrow> riskLevel (newResult (random_id e) u (now_first e) a) = Suspicious) \<and>
         (indicators_opt a = None
            \<longrightarrow> indicators (newResult (random_id e) u (now_first e) a) = []) \<and>
         (recommendation_opt a = None
            \<longrightarrow> recommendation (newResult (random_id e) u (now_first e) a) = []) \<and>
         (analysis_opt a = None \<longrightarrow> analysis (newResult (random_id e) u (now_first e) a) = []) \<and>
         (\<forall>n. riskScore_opt a = Some n
            \<longrightarrow> riskScore (newResult (random_id e) u (now_first e) a) = n) \<and>
         (\<forall>l. riskLevel_opt a = Some l
            \<longrightarrow> riskLevel (newResult (random_id e) u (now_first e) a) = l) \<and>
         (\<forall>xs. indicators_opt a = Some xs
            \<longrightarrow> indicators (newResult (random_id e) u (now_first e) a) = xs) \<and>
         (\<forall>t. recommendation_opt a = Some t
            \<longrightarrow> recommendation (newResult (random_id e) u (now_first e) a) = t) \<and>
         (\<forall>t. analysis_opt a = Some t
            \<longrightarrow> analysis (newResult (random_id e) u (now_first e) a) = t)"
proof -
  have shown: "currentResult (app (final (handleScan e fetch s u)))
           = Some (newResult (random_id e) u (now_first e) a)"
    using handleScan_fresh [OF assms] by (simp add: store_result_def)
  have fields:
    "riskScore (newResult rnd u t a) = or_number (riskScore_opt a) 0"
    "riskLevel (newResult rnd u t a) = or_truthy (riskLevel_opt a) Suspicious"
    "indicators (newResult rnd u t a) = or_truthy (indicators_opt a) []"
    "recommendation (newResult rnd u t a) = or_string (recommendation_opt a) []"
    "analysis (newResult rnd u t a) = or_string (analysis_opt a) []" for rnd t
    by (simp_all add: newResult_def)
  show ?thesis
    by (simp add: shown fields or_number_def or_truthy_def or_string_def)
qed

theorem handleScan_defaults_witness:
  "''http://example.com'' \<notin> set (blockedUrls (app
       \<lparr>app = \<lparr>screen = Home, currentResult = None, history = [], blockedUrls = []\<rparr>,
        isAnalyzing = False, showAlert = False\<rparr>)) \<and>
   analyzeUrl (\<lambda>u. Inr \<lparr>status_code = 200, json = Inr (no_fields\<lparr>riskScore_opt := Some 85,
        riskLevel_opt := Some HighRisk, indicators_opt := Some [''lookalike domain'']\<rparr>)\<rparr>)
     ''http://example.com''
     = Inr (no_fields\<lparr>riskScore_opt := Some 85,
        riskLevel_opt := Some HighRisk, indicators_opt := Some [''lookalike domain'']\<rparr>) \<and>
   currentResult (app (final (handleScan \<lparr>now_first = 5, now_second = 6, random_id = ''k3x''\<rparr>
       (\<lambda>u. Inr \<lparr>status_code = 200, json = Inr (no_fields\<lparr>riskScore_opt := Some 85,
          riskLevel_opt := Some HighRisk, indicators_opt := Some [''lookalike domain'']\<rparr>)\<rparr>)
       \<lparr>app = \<lparr>screen = Home, currentResult = None, history = [], blockedUrls = []\<rparr>,
        isAnalyzing = False, showAlert = False\<rparr>
       ''http://example.com'')))
     = Some \<lparr>id_sr = ''k3x'', url = ''http://example.com'', timestamp = 5,
           riskScore = 85, riskLevel = HighRisk, indicators = [''lookalike domain''],
           recommendation = [], analysis = []\<rparr>"
proof -
  let ?a = "no_fields\<lparr>riskScore_opt := Some 85,
        riskLevel_opt := Some HighRisk, indicators_opt := Some [''lookalike domain'']\<rparr>"
  let ?fetch = "\<lambda>u::string. Inr \<lparr>status_code = 200, json = Inr ?a\<rparr> :: error + Response"
  let ?s = "\<lparr>app = \<lparr>screen = Home, currentResult = None, history = [], blockedUrls = []\<rparr>,
        isAnalyzing = False, showAlert = False\<rparr>"
  let ?e = "\<lparr>now_first = 5, now_second = 6, random_id = ''k3x''\<rparr>"
  have fresh: "''http://example.com'' \<notin> set (blockedUrls (app ?s))" by simp
  have resp: "analyzeUrl ?fetch ''http://example.com'' = Inr ?a"
    by (simp add: analyzeUrl_def analyzeUrl_try_def ok_def)
  have built: "newResult ''k3x'' ''http://example.com'' 5 ?a =
      \<lparr>id_sr = ''k3x'', url = ''http://example.com'', timestamp = 5,
           riskScore = 85, riskLevel = HighRisk, indicators = [''lookalike domain''],
           recommendation = [], analysis = []\<rparr>"
    by (simp add: newResult_def no_fields_def or_number_def or_truthy_def or_string_def)
  from handleScan_defaults [OF fresh resp, of ?e] fresh resp built
  show ?thesis by simp
qed

text \<open>
  C8. Recording a result puts it first in the history, and the history then has at most
  50 entries (also when \<^verbatim>\<open>handleScan\<close> does the recording, on a URL that is not
  blocked), so a history of at most 50 entries stays so through every run of
  \<^verbatim>\<open>handleScan\<close>. After 51 results recorded into an empty history, the history is the last 50
  of them, newest first, so the oldest one is gone (unless an equal record was recorded
  again later).
\<close>

theorem history_newest_first_bounded:
  "(\<exists>rest. history (store_result r u prev) = r # rest) \<and>
   length (history (store_result r u prev)) \<le> 50 \<and>
   (u \<notin> set (blockedUrls (app s)) \<longrightarrow>
      (\<exists>r' rest. history (app (final (handleScan e fetch s u))) = r' # rest \<and>
         currentResult (app (final (handleScan e fetch s u))) = Some r') \<and>
      length (history (app (final (handleScan e fetch s u)))) \<le> 50) \<and>
   (length rs = 51 \<and> history prev = [] \<longrightarrow>
      history (foldl (\<lambda>s (r, u). store_result r u s) prev rs) = rev (map fst (tl rs)) \<and>
      length (history (foldl (\<lambda>s (r, u). store_result r u s) prev rs)) = 50 \<and>
      (fst (hd rs) \<notin> set (map fst (tl rs)) \<longrightarrow>
         fst (hd rs) \<notin> set (history (foldl (\<lambda>s (r, u). store_result r u s) prev rs)))) \<and>
   (length (history (app s)) \<le> 50 \<longrightarrow>
      length (history (app (final (handleScan e fetch s u)))) \<le> 50)"
proof -
  have kept: "length (history (app s)) \<le> 50 \<longrightarrow>
      length (history (app (final (handleScan e fetch s u)))) \<le> 50"
    by (simp add: handleScan_history_bound)
  have first: "\<exists>rest. history (store_result r u prev) = r # rest"
  proof -
    have "take (Suc 49) (r # history prev) = r # take 49 (history prev)"
      by (rule take_Suc_Cons)
    then show ?thesis by (simp add: store_result_history)
  qed
  have bound: "length (history (store_result r' u' prev')) \<le> 50" for r' u' prev'
    by (simp add: store_result_history)
  have pipeline: "u \<notin> set (blockedUrls (app s)) \<longrightarrow>
      (\<exists>r' rest. history (app (final (handleScan e fetch s u))) = r' # rest \<and>
         currentResult (app (final (handleScan e fetch s u))) = Some r') \<and>
      length (history (app (final (handleScan e fetch s u)))) \<le> 50"
  proof
    assume fresh: "u \<notin> set (blockedUrls (app s))"
    obtain a where a: "analyzeUrl fetch u = Inr a"
      using analyzeUrl_total by blast
    let ?r = "newResult (random_id e) u (now_first e) a"
    have run: "app (final (handleScan e fetch s u)) = store_result ?r u (start_scanning (app s))"
      by (rule handleScan_fresh [OF fresh a])
    have "take (Suc 49) (?r # history (start_scanning (app s)))
            = ?r # take 49 (history (start_scanning (app s)))"
      by (rule take_Suc_Cons)
    then have "history (app (final (handleScan e fetch s u)))
            = ?r # take 49 (history (start_scanning (app s)))"
      by (simp add: run store_result_history)
    moreover have "currentResult (app (final (handleScan e fetch s u))) = Some ?r"
      by (simp add: run store_result_def)
    moreover have "length (history (app (final (handleScan e fetch s u)))) \<le> 50"
      by (simp only: run bound)
    ultimately show "(\<exists>r' rest. history (app (final (handleScan e fetch s u))) = r' # rest \<and>
         currentResult (app (final (handleScan e fetch s u))) = Some r') \<and>
      length (history (app (final (handleScan e fetch s u)))) \<le> 50"
      by blast
  qed
  have many: "length rs = 51 \<and> history prev = [] \<longrightarrow>
      history (foldl (\<lambda>s (r, u). store_result r u s) prev rs) = rev (map fst (tl rs)) \<and>
      length (history (foldl (\<lambda>s (r, u). store_result r u s) prev rs)) = 50 \<and>
      (fst (hd rs) \<notin> set (map fst (tl rs)) \<longrightarrow>
         fst (hd rs) \<notin> set (history (foldl (\<lambda>s (r, u). store_result r u s) prev rs)))"
  proof
    assume h: "length rs = 51 \<and> history prev = []"
    then obtain p ps where rs: "rs = p # ps" and len: "length ps = 50"
      by (cases rs) auto
    have "history (foldl (\<lambda>s (r, u). store_result r u s) prev rs)
            = take 50 (rev (map fst rs) @ history prev)"
      using h by (intro record_many) simp
    also have "\<dots> = rev (map fst ps)"
      using h len by (simp add: rs)
    finally have eq: "history (foldl (\<lambda>s (r, u). store_result r u s) prev rs)
            = rev (map fst (tl rs))"
      by (simp add: rs)
    show "history (foldl (\<lambda>s (r, u). store_result r u s) prev rs) = rev (map fst (tl rs)) \<and>
      length (history (foldl (\<lambda>s (r, u). store_result r u s) prev rs)) = 50 \<and>
      (fst (hd rs) \<notin> set (map fst (tl rs)) \<longrightarrow>
         fst (hd rs) \<notin> set (history (foldl (\<lambda>s (r, u). store_result r u s) prev rs)))"
      using len by (simp add: eq) (simp add: rs)
  qed
  from first bound pipeline many kept show ?thesis by blast
qed

theorem history_newest_first_bounded_witness:
  "length ((blockedResult ''a'' 1 1, ''a'') # replicate 50 (blockedResult ''b'' 2 2, ''b'')) = 51 \<and>
   history \<lparr>screen = Home, currentResult = None, history = [], blockedUrls = []\<rparr> = [] \<and>
   (blockedResult ''a'' 1 1)
     \<notin> set (map fst (replicate 50 (blockedResult ''b'' 2 2, ''b''))) \<and>
   history (foldl (\<lambda>s (r, u). store_result r u s)
       \<lparr>screen = Home, currentResult = None, history = [], blockedUrls = []\<rparr>
       ((blockedResult ''a'' 1 1, ''a'') # replicate 50 (blockedResult ''b'' 2 2, ''b'')))
     = replicate 50 (blockedResult ''b'' 2 2) \<and>
   (blockedResult ''a'' 1 1) \<notin> set (history (foldl (\<lambda>s (r, u). store_result r u s)
       \<lparr>screen = Home, currentResult = None, history = [], blockedUrls = []\<rparr>
       ((blockedResult ''a'' 1 1, ''a'') # replicate 50 (blockedResult ''b'' 2 2, ''b''))))"
proof -
  let ?rs = "(blockedResult ''a'' 1 1, ''a'') # replicate 50 (blockedResult ''b'' 2 2, ''b'')"
  let ?s0 = "\<lparr>screen = Home, currentResult = None, history = [], blockedUrls = []\<rparr>"
  have len: "length ?rs = 51" by simp
  have emp: "history ?s0 = []" by simp
  have ne: "blockedResult ''a'' 1 1 \<noteq> blockedResult ''b'' 2 2"
    by (simp add: blockedResult_def)
  have fresh: "blockedResult ''a'' 1 1 \<notin> set (map fst (replicate 50 (blockedResult ''b'' 2 2, ''b'')))"
    using ne by simp
  have rv: "rev (map fst (tl ?rs)) = replicate 50 (blockedResult ''b'' 2 2)"
    by simp
  from history_newest_first_bounded [of _ _ ?s0 _ _ _ ?rs] len emp fresh rv
  show ?thesis by simp
qed

section \<open>Properties of the assessment client and service\<close>

text \<open>
  C6. Whenever the call made by \<^verbatim>\<open>analyzeUrl\<close> fails (\<^verbatim>\<open>fetch\<close> rejects, the
  response has a status outside 200-299, or \<^verbatim>\<open>response.json()\<close> rejects because the
  body is not JSON), \<^verbatim>\<open>analyzeUrl\<close> returns exactly the fixed degraded record: score
  50, level suspicious, the indicator "Analysis failed due to network error", and the
  fixed recommendation and analysis. It never ends with an exception.
\<close>

theorem analyzeUrl_degraded:
  "(fetch u = Inl err \<longrightarrow> analyzeUrl fetch u = Inr client_fallback) \<and>
   (fetch u = Inr response \<and> \<not> ok response \<longrightarrow> analyzeUrl fetch u = Inr client_fallback) \<and>
   (fetch u = Inr response \<and> ok response \<and> json response = Inl err
      \<longrightarrow> analyzeUrl fetch u = Inr client_fallback) \<and>
   (\<exists>r. analyzeUrl fetch u = Inr r) \<and>
   client_fallback =
     \<lparr>id_opt = None, url_opt = None, timestamp_opt = None,
      riskScore_opt = Some 50, riskLevel_opt = Some Suspicious,
      indicators_opt = Some [''Analysis failed due to network error''],
      recommendation_opt = Some ''Proceed with extreme caution. Manual verification required.'',
      analysis_opt = Some ''We were unable to complete the AI-powered deep scan at this time.''\<rparr>"
proof -
  have thrown: "fetch u = Inl err \<longrightarrow> analyzeUrl fetch u = Inr client_fallback"
    by (simp add: analyzeUrl_def analyzeUrl_try_def)
  have not_ok: "fetch u = Inr response \<and> \<not> ok response
      \<longrightarrow> analyzeUrl fetch u = Inr client_fallback"
    by (simp add: analyzeUrl_def analyzeUrl_try_def)
  have bad_json: "fetch u = Inr response \<and> ok response \<and> json response = Inl err
      \<longrightarrow> analyzeUrl fetch u = Inr client_fallback"
    by (simp add: analyzeUrl_def analyzeUrl_try_def)
  have total: "\<exists>r. analyzeUrl fetch u = Inr r"
    by (cases "analyzeUrl_try fetch u") (simp_all add: analyzeUrl_def)
  have literal: "client_fallback =
     \<lparr>id_opt = None, url_opt = None, timestamp_opt = None,
      riskScore_opt = Some 50, riskLevel_opt = Some Suspicious,
      indicators_opt = Some [''Analysis failed due to network error''],
      recommendation_opt = Some ''Proceed with extreme caution. Manual verification required.'',
      analysis_opt = Some ''We were unable to complete the AI-powered deep scan at this time.''\<rparr>"
    by (simp add: client_fallback_def no_fields_def)
  from thrown not_ok bad_json total literal show ?thesis by blast
qed

theorem analyzeUrl_degraded_witness:
  "analyzeUrl (\<lambda>u. Inl NetworkError) ''http://example.com'' = Inr client_fallback \<and>
   \<not> ok \<lparr>status_code = 500, json = Inr server_fallback\<rparr> \<and>
   analyzeUrl (\<lambda>u. Inr \<lparr>status_code = 500, json = Inr server_fallback\<rparr>) ''http://example.com''
     = Inr client_fallback \<and>
   ok \<lparr>status_code = 200, json = Inl SyntaxError\<rparr> \<and>
   analyzeUrl (\<lambda>u. Inr \<lparr>status_code = 200, json = Inl SyntaxError\<rparr>) ''http://example.com''
     = Inr client_fallback"
proof -
  have a: "analyzeUrl (\<lambda>u. Inl NetworkError) ''http://example.com'' = Inr client_fallback"
    using analyzeUrl_degraded [of "\<lambda>u. Inl NetworkError" "''http://example.com''" NetworkError]
    by simp
  have nok: "\<not> ok \<lparr>status_code = 500, json = Inr server_fallback\<rparr>"
    by (simp add: ok_def)
  have b: "analyzeUrl (\<lambda>u. Inr \<lparr>status_code = 500, json = Inr server_fallback\<rparr>)
      ''http://example.com'' = Inr client_fallback"
    using analyzeUrl_degraded [of "\<lambda>u. Inr \<lparr>status_code = 500, json = Inr server_fallback\<rparr>"
        "''http://example.com''" _ "\<lparr>status_code = 500, json = Inr server_fallback\<rparr>"] nok
    by simp
  have isok: "ok \<lparr>status_code = 200, json = Inl SyntaxError\<rparr>"
    by (simp add: ok_def)
  have c: "analyzeUrl (\<lambda>u. Inr \<lparr>status_code = 200, json = Inl SyntaxError\<rparr>)
      ''http://example.com'' = Inr client_fallback"
    using analyzeUrl_degraded [of "\<lambda>u. Inr \<lparr>status_code = 200, json = Inl SyntaxError\<rparr>"
        "''http://example.com''" SyntaxError "\<lparr>status_code = 200, json = Inl SyntaxError\<rparr>"] isok
    by simp
  from a nok b isok c show ?thesis by blast
qed




text \<open>
  C5, as the code has it. With the client talking to this server and the API key in
  place: when the backend's text is not JSON (or is the JSON \<^verbatim>\<open>null\<close>), the caller of
  \<^verbatim>\<open>analyzeUrl\<close> sees exactly the client's degraded record; when the text is empty or
  absent (and the URL is not empty), the route reads it as \<^verbatim>\<open>{}\<close>, answers 200, and
  the caller sees a record whose only field is \<^verbatim>\<open>riskLevel\<close> = safe.
\<close>

theorem analyzeUrl_through_server:
  assumes "fst (getAI aiInstance apiKey) = Inr inst"
  shows "(generateContent inst u = Inr TextMalformed \<or>
          generateContent inst u = Inr (TextJson JsonNull) \<longrightarrow>
            analyzeUrl (fetch_from_server generateContent apiKey aiInstance) u
              = Inr client_fallback) \<and>
         (u \<noteq> [] \<and> (generateContent inst u = Inr TextEmpty \<or>
                      generateContent inst u = Inr TextUndefined) \<longrightarrow>
            analyzeUrl (fetch_from_server generateContent apiKey aiInstance) u
              = Inr (no_fields\<lparr>riskLevel_opt := Some Safe\<rparr>))"
proof -
  obtain inst' where g: "getAI aiInstance apiKey = (Inr inst, inst')"
    using assms by (cases "getAI aiInstance apiKey") simp
  have malformed: "generateContent inst u = Inr TextMalformed \<or>
          generateContent inst u = Inr (TextJson JsonNull) \<longrightarrow>
            analyzeUrl (fetch_from_server generateContent apiKey aiInstance) u
              = Inr client_fallback"
    by (auto simp: analyzeUrl_def analyzeUrl_try_def fetch_from_server_def to_Response_def ok_def
        api_analyze_def g analyze_try_def analyze_body_def JSON_parse_text_def JSON_parse_def
        get_riskScore_def)
  have empty: "u \<noteq> [] \<and> (generateContent inst u = Inr TextEmpty \<or>
                      generateContent inst u = Inr TextUndefined) \<longrightarrow>
            analyzeUrl (fetch_from_server generateContent apiKey aiInstance) u
              = Inr (no_fields\<lparr>riskLevel_opt := Some Safe\<rparr>)"
    by (auto simp: analyzeUrl_def analyzeUrl_try_def fetch_from_server_def to_Response_def ok_def
        api_analyze_def g analyze_try_def analyze_body_def JSON_parse_text_def JSON_parse_def
        get_riskScore_def spread_def JSON_parse_object_def JSON_stringify_def
        JSON_stringify_number_def or_js_number_def getRiskLevel_server_js_def less_js_def
        no_fields_def)
  from malformed empty show ?thesis by blast
qed

theorem analyzeUrl_through_server_witness:
  "fst (getAI None (Some ''key'')) = Inr ''key'' \<and>
   analyzeUrl (fetch_from_server (\<lambda>ai u. Inr TextMalformed) (Some ''key'') None)
       ''http://example.com'' = Inr client_fallback \<and>
   analyzeUrl (fetch_from_server (\<lambda>ai u. Inr TextUndefined) (Some ''key'') None)
       ''http://example.com'' = Inr (no_fields\<lparr>riskLevel_opt := Some Safe\<rparr>)"
proof -
  have key: "fst (getAI None (Some ''key'')) = Inr ''key''" by (simp add: getAI_def)
  have a: "analyzeUrl (fetch_from_server (\<lambda>ai u. Inr TextMalformed) (Some ''key'') None)
       ''http://example.com'' = Inr client_fallback"
    using analyzeUrl_through_server [OF key, of "\<lambda>ai u. Inr TextMalformed" "''http://example.com''"]
    by simp
  have b: "analyzeUrl (fetch_from_server (\<lambda>ai u. Inr TextUndefined) (Some ''key'') None)
       ''http://example.com'' = Inr (no_fields\<lparr>riskLevel_opt := Some Safe\<rparr>)"
    using analyzeUrl_through_server [OF key, of "\<lambda>ai u. Inr TextUndefined" "''http://example.com''"]
    by simp
  from key a b show ?thesis by blast
qed

text \<open>
  An empty text from the backend does not lead to the degraded record.
\<close>

theorem analyzeUrl_empty_body_counterexample:
  "analyzeUrl (fetch_from_server (\<lambda>ai u. Inr TextEmpty) (Some ''key'') None) ''http://example.com''
     = Inr (no_fields\<lparr>riskLevel_opt := Some Safe\<rparr>) \<and>
   analyzeUrl (fetch_from_server (\<lambda>ai u. Inr TextEmpty) (Some ''key'') None) ''http://example.com''
     \<noteq> Inr client_fallback"
  by (simp add: analyzeUrl_def analyzeUrl_try_def fetch_from_server_def to_Response_def ok_def
        api_analyze_def getAI_def analyze_try_def analyze_body_def JSON_parse_text_def
        JSON_parse_def get_riskScore_def spread_def JSON_parse_object_def JSON_stringify_def
        JSON_stringify_number_def or_js_number_def getRiskLevel_server_js_def less_js_def
        no_fields_def client_fallback_def)

section \<open>Agreement of level and score\<close>

text \<open>
  C3, as the code has it. The level agrees with the classifier applied to the score: in
  the object the route hands to \<^verbatim>\<open>res.json\<close> on its success path (with 0 for an absent
  score); in every result built from what \<^verbatim>\<open>analyzeUrl\<close> gets from this server, as long
  as the score in that object is not \<^verbatim>\<open>Infinity\<close>; in both degraded records; in every
  result built from a response whose level agrees with its score; and in the synthetic
  result for a blocked URL. A response without a level gets the literal suspicious,
  whatever its score.
\<close>

theorem riskLevel_agrees_with_riskScore:
  "(analyzeUrl (fetch_from_server generateContent apiKey aiInstance) u = Inr a \<and>
    (\<forall>obj. analyze_try generateContent (fst (getAI aiInstance apiKey)) u = Inr obj
       \<longrightarrow> riskScore_js obj \<noteq> Some Infinity) \<longrightarrow>
      getRiskLevel (riskScore (newResult rnd u t a)) = riskLevel (newResult rnd u t a)) \<and>
   (analyze_try generateContent ai u = Inr obj' \<longrightarrow>
      riskLevel_js obj'
        = Some (getRiskLevel_server_js (or_js_number (riskScore_js obj') (Num 0)))) \<and>
   getRiskLevel_server_js (Num n) = getRiskLevel_server n \<and>
   riskScore_opt server_fallback = Some 50 \<and>
   riskLevel_opt server_fallback = Some (getRiskLevel_server 50) \<and>
   riskScore_opt client_fallback = Some 50 \<and>
   riskLevel_opt client_fallback = Some (getRiskLevel 50) \<and>
   (riskLevel_opt a' = Some (getRiskLevel (or_number (riskScore_opt a') 0)) \<longrightarrow>
      getRiskLevel (riskScore (newResult rnd u t a')) = riskLevel (newResult rnd u t a')) \<and>
   (riskLevel_opt a' = None \<longrightarrow> riskLevel (newResult rnd u t a') = Suspicious) \<and>
   getRiskLevel (riskScore (blockedResult u t1 t2)) = riskLevel (blockedResult u t1 t2)"
proof -
  have end_to_end:
    "analyzeUrl (fetch_from_server generateContent apiKey aiInstance) u = Inr a \<and>
     (\<forall>obj. analyze_try generateContent (fst (getAI aiInstance apiKey)) u = Inr obj
        \<longrightarrow> riskScore_js obj \<noteq> Some Infinity) \<longrightarrow>
      getRiskLevel (riskScore (newResult rnd u t a)) = riskLevel (newResult rnd u t a)"
  proof
    assume h: "analyzeUrl (fetch_from_server generateContent apiKey aiInstance) u = Inr a \<and>
     (\<forall>obj. analyze_try generateContent (fst (getAI aiInstance apiKey)) u = Inr obj
        \<longrightarrow> riskScore_js obj \<noteq> Some Infinity)"
    from analyzeUrl_from_server_cases [of generateContent apiKey aiInstance u]
    have "riskLevel_opt a = Some (getRiskLevel_server (or_number (riskScore_opt a) 0))"
    proof
      assume "analyzeUrl (fetch_from_server generateContent apiKey aiInstance) u
                = Inr client_fallback"
      with h have "a = client_fallback" by simp
      then show ?thesis
        by (simp add: fallback_levels or_number_def getRiskLevel_server_eq)
    next
      assume "\<exists>obj. analyze_try generateContent (fst (getAI aiInstance apiKey)) u = Inr obj \<and>
        analyzeUrl (fetch_from_server generateContent apiKey aiInstance) u
          = Inr (JSON_stringify obj)"
      then obtain obj where
        obj: "analyze_try generateContent (fst (getAI aiInstance apiKey)) u = Inr obj" and
        sent: "analyzeUrl (fetch_from_server generateContent apiKey aiInstance) u
                 = Inr (JSON_stringify obj)"
        by blast
      from h obj have finite: "riskScore_js obj \<noteq> Some Infinity" by blast
      from h sent have "a = JSON_stringify obj" by simp
      then show ?thesis
        using JSON_stringify_level [OF analyze_try_level [OF obj] finite] by simp
    qed
    then have "riskLevel_opt a = Some (getRiskLevel (or_number (riskScore_opt a) 0))"
      by (simp add: getRiskLevel_server_eq)
    then show "getRiskLevel (riskScore (newResult rnd u t a)) = riskLevel (newResult rnd u t a)"
      by (rule newResult_agrees)
  qed
  have server_ok: "analyze_try generateContent ai u = Inr obj' \<longrightarrow>
      riskLevel_js obj'
        = Some (getRiskLevel_server_js (or_js_number (riskScore_js obj') (Num 0)))"
    by (simp add: analyze_try_level)
  have client: "riskLevel_opt a' = Some (getRiskLevel (or_number (riskScore_opt a') 0)) \<longrightarrow>
      getRiskLevel (riskScore (newResult rnd u t a')) = riskLevel (newResult rnd u t a')"
    by (simp add: newResult_agrees)
  have dflt: "riskLevel_opt a' = None \<longrightarrow> riskLevel (newResult rnd u t a') = Suspicious"
    by (simp add: newResult_def or_truthy_def)
  from end_to_end server_ok client dflt fallback_levels blocked_agrees
    getRiskLevel_server_js_Num
  show ?thesis by blast
qed

theorem riskLevel_agrees_with_riskScore_witness:
  "analyzeUrl (fetch_from_server
       (\<lambda>ai u. Inr (TextJson (JsonObject (no_fields\<lparr>riskScore_opt := Some 85\<rparr>))))
       (Some ''key'') None) ''http://example.com''
     = Inr (no_fields\<lparr>riskScore_opt := Some 85, riskLevel_opt := Some HighRisk\<rparr>) \<and>
   fst (getAI None (Some ''key'')) = Inr ''key'' \<and>
   analyze_try (\<lambda>ai u. Inr (TextJson (JsonObject (no_fields\<lparr>riskScore_opt := Some 85\<rparr>))))
       (Inr ''key'') ''http://example.com''
     = Inr ((JSON_parse_object no_fields)
              \<lparr>riskScore_js := Some (Num 85), riskLevel_js := Some HighRisk\<rparr>) \<and>
   getRiskLevel (riskScore (newResult ''k3x'' ''http://example.com'' 5
       (no_fields\<lparr>riskScore_opt := Some 85, riskLevel_opt := Some HighRisk\<rparr>)))
     = riskLevel (newResult ''k3x'' ''http://example.com'' 5
       (no_fields\<lparr>riskScore_opt := Some 85, riskLevel_opt := Some HighRisk\<rparr>)) \<and>
   riskLevel (newResult ''k3x'' ''http://example.com'' 5
       (no_fields\<lparr>riskScore_opt := Some 85, riskLevel_opt := Some HighRisk\<rparr>)) = HighRisk \<and>
   riskLevel (newResult ''k3x'' ''http://example.com'' 5 no_fields) = Suspicious"
proof -
  let ?gen = "(\<lambda>ai u. Inr (TextJson (JsonObject (no_fields\<lparr>riskScore_opt := Some 85\<rparr>))))
      :: GoogleGenAI \<Rightarrow> string \<Rightarrow> error + response_text"
  let ?a = "no_fields\<lparr>riskScore_opt := Some 85, riskLevel_opt := Some HighRisk\<rparr>"
  let ?obj = "(JSON_parse_object no_fields)
              \<lparr>riskScore_js := Some (Num 85), riskLevel_js := Some HighRisk\<rparr>"
  have key: "fst (getAI None (Some ''key'')) = Inr ''key''" by (simp add: getAI_def)
  have parsed: "JSON_parse_number 85 = Num 85" by (simp add: JSON_parse_number_def)
  have inner: "analyze_try ?gen (Inr ''key'') ''http://example.com'' = Inr ?obj"
    by (simp add: analyze_try_def analyze_body_def JSON_parse_text_def JSON_parse_def
        get_riskScore_def spread_def or_js_number_def getRiskLevel_server_js_def less_js_def
        JSON_parse_object_def no_fields_def parsed)
  have wire: "JSON_stringify ?obj = ?a"
    by (simp add: JSON_stringify_def JSON_stringify_number_def JSON_parse_object_def
        no_fields_def)
  have served: "analyzeUrl (fetch_from_server ?gen (Some ''key'') None) ''http://example.com''
      = Inr ?a"
    by (simp add: analyzeUrl_def analyzeUrl_try_def fetch_from_server_def to_Response_def ok_def
        api_analyze_def getAI_def inner wire)
  have finite: "\<forall>obj. analyze_try ?gen (fst (getAI None (Some ''key''))) ''http://example.com''
        = Inr obj \<longrightarrow> riskScore_js obj \<noteq> Some Infinity"
    by (auto simp: key inner)
  have none: "riskLevel_opt (no_fields :: Partial_ScanResult) = None"
    by (simp add: no_fields_def)
  have high: "riskLevel (newResult ''k3x'' ''http://example.com'' 5 ?a) = HighRisk"
    by (simp add: newResult_def or_truthy_def)
  from riskLevel_agrees_with_riskScore
         [of ?gen "Some ''key''" None "''http://example.com''" ?a "''k3x''" 5 _ _ _ no_fields]
       served finite none high key inner
  show ?thesis by simp
qed

text \<open>
  A response with no field at all is built into a result with score 0 and level
  suspicious, although the classifier maps 0 to safe.
\<close>

theorem newResult_level_counterexample:
  "currentResult (app (final (handleScan \<lparr>now_first = 5, now_second = 6, random_id = ''k3x''\<rparr>
       (\<lambda>u. Inr \<lparr>status_code = 200, json = Inr no_fields\<rparr>)
       \<lparr>app = \<lparr>screen = Home, currentResult = None, history = [], blockedUrls = []\<rparr>,
        isAnalyzing = False, showAlert = False\<rparr>
       ''http://example.com'')))
     = Some \<lparr>id_sr = ''k3x'', url = ''http://example.com'', timestamp = 5,
           riskScore = 0, riskLevel = Suspicious, indicators = [],
           recommendation = [], analysis = []\<rparr> \<and>
   getRiskLevel 0 \<noteq> Suspicious"
  by (simp add: handleScan_def Let_def analyzeUrl_def analyzeUrl_try_def ok_def start_scanning_def
      store_result_def newResult_def no_fields_def or_number_def or_truthy_def or_string_def
      getRiskLevel_def)

text \<open>
  The score the theorem leaves out. A score literal beyond the range of doubles
  (\<^verbatim>\<open>1e400\<close>) is \<^verbatim>\<open>Infinity\<close> in the route, which classifies it as high-risk and
  writes the score as \<^verbatim>\<open>null\<close>; the client then builds score 0 with level high-risk.
\<close>

lemma infinite_score_through_server:
  "JSON_parse_number (10 ^ 400) = Infinity \<and>
   analyzeUrl (fetch_from_server
       (\<lambda>ai u. Inr (TextJson (JsonObject (no_fields\<lparr>riskScore_opt := Some (10 ^ 400)\<rparr>))))
       (Some ''key'') None) ''http://example.com''
     = Inr (no_fields\<lparr>riskLevel_opt := Some HighRisk\<rparr>) \<and>
   riskScore (newResult ''k3x'' ''http://example.com'' 5
       (no_fields\<lparr>riskLevel_opt := Some HighRisk\<rparr>)) = 0 \<and>
   riskLevel (newResult ''k3x'' ''http://example.com'' 5
       (no_fields\<lparr>riskLevel_opt := Some HighRisk\<rparr>)) = HighRisk \<and>
   getRiskLevel 0 = Safe"
proof -
  have inf: "JSON_parse_number (10 ^ 400) = Infinity"
    by (simp add: JSON_parse_number_def)
  have body: "analyze_body
       (TextJson (JsonObject (no_fields\<lparr>riskScore_opt := Some (10 ^ 400)\<rparr>)))
     = Inr ((JSON_parse_object no_fields)
              \<lparr>riskScore_js := Some Infinity, riskLevel_js := Some HighRisk\<rparr>)"
    unfolding analyze_body_def JSON_parse_text_def JSON_parse_def get_riskScore_def spread_def
      JSON_parse_object_def no_fields_def
    by (simp add: inf or_js_number_def getRiskLevel_server_js_def less_js_def
        del: power_numeral)
  have wire: "JSON_stringify ((JSON_parse_object no_fields)
              \<lparr>riskScore_js := Some Infinity, riskLevel_js := Some HighRisk\<rparr>)
     = no_fields\<lparr>riskLevel_opt := Some HighRisk\<rparr>"
    by (simp add: JSON_stringify_def JSON_stringify_number_def JSON_parse_object_def
        no_fields_def)
  have served: "analyzeUrl (fetch_from_server
       (\<lambda>ai u. Inr (TextJson (JsonObject (no_fields\<lparr>riskScore_opt := Some (10 ^ 400)\<rparr>))))
       (Some ''key'') None) ''http://example.com''
     = Inr (no_fields\<lparr>riskLevel_opt := Some HighRisk\<rparr>)"
    by (simp add: analyzeUrl_def analyzeUrl_try_def fetch_from_server_def to_Response_def ok_def
        api_analyze_def getAI_def analyze_try_def body wire del: power_numeral)
  have built:
    "riskScore (newResult ''k3x'' ''http://example.com'' 5
       (no_fields\<lparr>riskLevel_opt := Some HighRisk\<rparr>)) = 0"
    "riskLevel (newResult ''k3x'' ''http://example.com'' 5
       (no_fields\<lparr>riskLevel_opt := Some HighRisk\<rparr>)) = HighRisk"
    by (simp_all add: newResult_def no_fields_def or_number_def or_truthy_def)
  from inf served built show ?thesis by (simp add: getRiskLevel_def)
qed

section \<open>Start-up\<close>

text \<open>
  What does hold at start-up: the initialiser always returns a state (it never ends with
  an exception), on the home screen; a key that is absent, empty or not parsable gives
  the empty array for its component, and a failing read or parse empties both.
\<close>

lemma initial_state_defaults:
  "\<exists>s0. initial_state getHistory getBlocked = Inr s0 \<and> screen_init s0 = Home \<and>
     currentResult_init s0 = None \<and>
     (getHistory = Inr Missing \<or> getHistory = Inr EmptyString \<or> getHistory = Inr Unparsable
        \<longrightarrow> history_init s0 = StoredArray []) \<and>
     (getBlocked = Inr Missing \<or> getBlocked = Inr EmptyString \<or> getBlocked = Inr Unparsable
        \<longrightarrow> blockedUrls_init s0 = StoredArray []) \<and>
     ((\<exists>err. getHistory = Inl err) \<or> (\<exists>err. getBlocked = Inl err) \<or>
      getHistory = Inr Unparsable \<or> getBlocked = Inr Unparsable
        \<longrightarrow> history_init s0 = StoredArray [] \<and> blockedUrls_init s0 = StoredArray [])"
proof (cases getHistory)
  case (Inl err)
  then show ?thesis by (simp add: initial_state_def load_try_def)
next
  case h: (Inr savedHistory)
  show ?thesis
  proof (cases getBlocked)
    case (Inl err)
    then show ?thesis by (simp add: initial_state_def load_try_def h)
  next
    case b: (Inr savedBlocked)
    show ?thesis
      by (cases savedHistory; cases savedBlocked)
         (simp_all add: initial_state_def load_try_def parse_saved_def h b)
  qed
qed

text \<open>
  C10. Start-up is claimed never to fail for any stored content, the app starting on the
  home screen with a well-defined history. With the string \<^verbatim>\<open>null\<close> stored under the
  history key (it parses, so the \<^verbatim>\<open>catch\<close> is not entered) the initialiser returns a
  state on the home screen whose history is \<^verbatim>\<open>null\<close>, which is no application state,
  and the first render of the home screen ends with a TypeError.
\<close>

theorem initial_state_null_history:
  "initial_state (Inr (Saved StoredNull)) (Inr Missing)
     = Inr \<lparr>screen_init = Home, currentResult_init = None,
            history_init = StoredNull, blockedUrls_init = StoredArray []\<rparr> \<and>
   as_AppState \<lparr>screen_init = Home, currentResult_init = None,
                history_init = StoredNull, blockedUrls_init = StoredArray []\<rparr> = None \<and>
   first_render \<lparr>screen_init = Home, currentResult_init = None,
                 history_init = StoredNull, blockedUrls_init = StoredArray []\<rparr>
     = Inl TypeError"
  by (simp add: initial_state_def load_try_def parse_saved_def as_AppState_def
      first_render_def recent_scans_def)

end
